theory Spec2Isabelle
  imports Main "HOL-Library.Sublist"
begin

section \<open>JavaScript values used by unfurl.js\<close>

text \<open>
  The argument of \<open>unfurl\<close> is declared a string by its JSDoc, but the function tests
  \<open>typeof url\<close> itself, so the model lets the argument be any JavaScript value.
\<close>

datatype js_input =
    InUndefined
  | InNull
  | InBoolean bool
  | InNumber int
  | InString string
  | InObject

definition typeof :: "js_input \<Rightarrow> string" where
  "typeof v =
     (case v of
        InUndefined \<Rightarrow> ''undefined''
      | InNull \<Rightarrow> ''object''
      | InBoolean b \<Rightarrow> ''boolean''
      | InNumber n \<Rightarrow> ''number''
      | InString s \<Rightarrow> ''string''
      | InObject \<Rightarrow> ''object'')"

text \<open>
  Every value the extractors store or read is of the JSDoc type
  \<open>string | null | undefined\<close>. JavaScript strings are modelled as HOL strings.
\<close>

datatype jsval = Undefined | Null | Str string

text \<open>\<open>s.startsWith(p)\<close> on strings.\<close>

definition startsWith :: "string \<Rightarrow> string \<Rightarrow> bool" where
  "startsWith s p = prefix p s"

text \<open>Truthiness, as \<open>v && ...\<close> and \<open>!v\<close> read it: only a non-empty string is truthy.\<close>

definition truthy :: "jsval \<Rightarrow> bool" where
  "truthy v = (case v of Str s \<Rightarrow> s \<noteq> [] | Null \<Rightarrow> False | Undefined \<Rightarrow> False)"

text \<open>The nullish coalescing operator \<open>a ?? b\<close>.\<close>

definition nullish_or :: "jsval \<Rightarrow> jsval \<Rightarrow> jsval" where
  "nullish_or a b = (case a of Undefined \<Rightarrow> b | Null \<Rightarrow> b | Str s \<Rightarrow> Str s)"

text \<open>
  \<open>v.startsWith(p)\<close> for a value only called behind the guard \<open>v && ...\<close>, where
  \<open>v\<close> is a non-empty string; the other cases are never evaluated by the source.
\<close>

definition val_startsWith :: "jsval \<Rightarrow> string \<Rightarrow> bool" where
  "val_startsWith v p = (case v of Str s \<Rightarrow> startsWith s p | Null \<Rightarrow> False | Undefined \<Rightarrow> False)"

text \<open>
  The string a value is converted to where a string is expected: as the property key of
  \<open>obj[v]\<close> and as the first argument of \<open>new URL\<close>.
\<close>

definition ToString :: "jsval \<Rightarrow> string" where
  "ToString v = (case v of Str s \<Rightarrow> s | Null \<Rightarrow> ''null'' | Undefined \<Rightarrow> ''undefined'')"

text \<open>
  A plain object \<open>{}\<close> used as a dictionary: reading a key that was never written
  gives \<open>undefined\<close>.
\<close>

type_synonym js_object = "string \<rightharpoonup> jsval"

definition get_prop :: "js_object \<Rightarrow> string \<Rightarrow> jsval" where
  "get_prop obj k = (case obj k of None \<Rightarrow> Undefined | Some v \<Rightarrow> v)"

definition set_prop :: "js_object \<Rightarrow> string \<Rightarrow> jsval \<Rightarrow> js_object" where
  "set_prop obj k v = obj(k \<mapsto> v)"

section \<open>The events of the HTMLRewriter\<close>

text \<open>
  An element is given by its attributes, name and value in document order.
  \<open>element.getAttribute(name)\<close> is the value of the first attribute of that name, or
  \<open>null\<close>.
\<close>

type_synonym element = "(string \<times> string) list"

definition getAttribute :: "element \<Rightarrow> string \<Rightarrow> jsval" where
  "getAttribute el n = (case map_of el n of None \<Rightarrow> Null | Some v \<Rightarrow> Str v)"

text \<open>
  The rewriter reports the start of an element (tag name and attributes) and the text
  chunks inside an element (tag name of the enclosing element and the chunk).
\<close>

datatype tag_event =
    ElementStart string element
  | TextChunk string string

section \<open>The three extractors\<close>

record TextExtractor =
  text_string :: string

definition TextExtractor_new :: TextExtractor where
  "TextExtractor_new = \<lparr> text_string = [] \<rparr>"

definition TextExtractor_text :: "TextExtractor \<Rightarrow> string \<Rightarrow> TextExtractor" where
  "TextExtractor_text this chunk = this\<lparr> text_string := text_string this @ chunk \<rparr>"

record MetaExtractor =
  og :: js_object
  twitter :: js_object
  meta_description :: jsval

definition MetaExtractor_new :: MetaExtractor where
  "MetaExtractor_new = \<lparr> og = Map.empty, twitter = Map.empty, meta_description = Null \<rparr>"

definition MetaExtractor_element :: "MetaExtractor \<Rightarrow> element \<Rightarrow> MetaExtractor" where
  "MetaExtractor_element this el =
     (let property = getAttribute el ''property'';
          name = getAttribute el ''name''
      in if truthy property \<and> val_startsWith property ''og:'' then
           this\<lparr> og := set_prop (og this) (ToString property) (getAttribute el ''content'') \<rparr>
         else if truthy name \<and> val_startsWith name ''twitter:'' then
           this\<lparr> twitter := set_prop (twitter this) (ToString name) (getAttribute el ''content'') \<rparr>
         else if name = Str ''description'' then
           this\<lparr> meta_description := getAttribute el ''content'' \<rparr>
         else this)"

record IconExtractor =
  appleIcon :: jsval
  icon :: jsval

definition IconExtractor_new :: IconExtractor where
  "IconExtractor_new = \<lparr> appleIcon = Null, icon = Null \<rparr>"

definition IconExtractor_element :: "IconExtractor \<Rightarrow> element \<Rightarrow> IconExtractor" where
  "IconExtractor_element this el =
     (if getAttribute el ''rel'' = Str ''icon'' then
        this\<lparr> icon := getAttribute el ''href'' \<rparr>
      else if getAttribute el ''rel'' = Str ''apple-touch-icon'' then
        this\<lparr> appleIcon := getAttribute el ''href'' \<rparr>
      else this)"

section \<open>One pass of the rewriter over a document\<close>

text \<open>
  The three handler objects of one call of \<open>unfurl\<close>: \<open>meta$\<close>, \<open>title$\<close> and
  \<open>icon$\<close>.
\<close>

record extractors =
  meta_ex :: MetaExtractor
  title_ex :: TextExtractor
  icon_ex :: IconExtractor

definition extractors_new :: extractors where
  "extractors_new =
     \<lparr> meta_ex = MetaExtractor_new, title_ex = TextExtractor_new, icon_ex = IconExtractor_new \<rparr>"

text \<open>
  \<open>.on("meta", meta$).on("title", title$).on("link", icon$)\<close>: \<open>meta$\<close> and
  \<open>icon$\<close> have an element handler only, \<open>title$\<close> a text handler only.
\<close>

definition dispatch :: "extractors \<Rightarrow> tag_event \<Rightarrow> extractors" where
  "dispatch ex ev =
     (case ev of
        ElementStart tag el \<Rightarrow>
          if tag = ''meta'' then ex\<lparr> meta_ex := MetaExtractor_element (meta_ex ex) el \<rparr>
          else if tag = ''link'' then ex\<lparr> icon_ex := IconExtractor_element (icon_ex ex) el \<rparr>
          else ex
      | TextChunk tag chunk \<Rightarrow>
          if tag = ''title'' then ex\<lparr> title_ex := TextExtractor_text (title_ex ex) chunk \<rparr>
          else ex)"

definition transform :: "tag_event list \<Rightarrow> extractors" where
  "transform evs = foldl dispatch extractors_new evs"

section \<open>The collaborators of unfurl\<close>

text \<open>
  \<open>fetch(url)\<close> either throws or gives a response whose body the rewriter reads as a
  sequence of events; reading the body ends either at the end of the stream or with an
  error. \<open>new URL(input, base).href\<close> is the platform's URL parser: \<open>None\<close> when the
  constructor throws a TypeError.
\<close>

datatype stream_end = EndOfStream | StreamError

datatype fetch_outcome =
    FetchThrows
  | FetchResponse "tag_event list" stream_end

record env =
  fetch :: "string \<Rightarrow> fetch_outcome"
  URL_href :: "string \<Rightarrow> string \<Rightarrow> string option"

section \<open>unfurl\<close>

datatype unfurl_error = BadParam | FailedFetch

datatype ('v, 'e) result = GoodResult 'v | BadResult 'e

text \<open>
  The field \<open>image\<close> of the source is \<open>image_url\<close> here (\<open>image\<close> is a constant of
  HOL).
\<close>

record UnfurledData =
  title :: jsval
  description :: jsval
  image_url :: jsval
  favicon :: jsval

datatype js_exception = TypeError

text \<open>
  A call of \<open>unfurl\<close> either returns a result or throws, and it leaves the list of the
  URLs it passed to \<open>fetch\<close>.
\<close>

type_synonym unfurl_outcome = "(js_exception + (UnfurledData, unfurl_error) result) \<times> string list"

text \<open>The condition of the first \<open>if\<close> of \<open>unfurl\<close>; \<open>||\<close> evaluates
  \<open>url.startsWith\<close> only when \<open>url\<close> is a string.\<close>

definition bad_param_condition :: "js_input \<Rightarrow> bool" where
  "bad_param_condition url =
     (typeof url \<noteq> ''string'' \<or>
      (case url of
         InString s \<Rightarrow> \<not> startsWith s ''http://'' \<or> \<not> startsWith s ''https://''
       | _ \<Rightarrow> True))"

definition title_candidate :: "extractors \<Rightarrow> jsval" where
  "title_candidate ex =
     nullish_or
       (nullish_or
          (nullish_or (get_prop (og (meta_ex ex)) ''og:title'')
                      (get_prop (twitter (meta_ex ex)) ''twitter:title''))
          (Str (text_string (title_ex ex))))
       Undefined"

definition description_candidate :: "extractors \<Rightarrow> jsval" where
  "description_candidate ex =
     nullish_or
       (nullish_or
          (nullish_or (get_prop (og (meta_ex ex)) ''og:description'')
                      (get_prop (twitter (meta_ex ex)) ''twitter:description''))
          (meta_description (meta_ex ex)))
       Undefined"

definition image_candidate :: "extractors \<Rightarrow> jsval" where
  "image_candidate ex =
     nullish_or
       (nullish_or
          (nullish_or (get_prop (og (meta_ex ex)) ''og:image:secure_url'')
                      (get_prop (og (meta_ex ex)) ''og:image''))
          (get_prop (twitter (meta_ex ex)) ''twitter:image''))
       Undefined"

definition favicon_candidate :: "extractors \<Rightarrow> jsval" where
  "favicon_candidate ex =
     nullish_or (nullish_or (appleIcon (icon_ex ex)) (icon (icon_ex ex))) Undefined"

text \<open>
  \<open>if (v && !v?.startsWith("http")) { v = new URL(v, url).href; }\<close>, the statement the
  source applies to \<open>image\<close> and then to \<open>favicon\<close>.
\<close>

definition absolutize :: "env \<Rightarrow> string \<Rightarrow> jsval \<Rightarrow> js_exception + jsval" where
  "absolutize e url v =
     (if truthy v \<and> \<not> val_startsWith v ''http'' then
        (case URL_href e (ToString v) url of
           None \<Rightarrow> Inl TypeError
         | Some href \<Rightarrow> Inr (Str href))
      else Inr v)"

text \<open>Lines 65 to 95: the selection of the four fields once the rewriter is done.\<close>

definition resolution ::
  "env \<Rightarrow> string \<Rightarrow> extractors \<Rightarrow> js_exception + (UnfurledData, unfurl_error) result" where
  "resolution e url ex =
     (case absolutize e url (image_candidate ex) of
        Inl exn \<Rightarrow> Inl exn
      | Inr image' \<Rightarrow>
          (case absolutize e url (favicon_candidate ex) of
             Inl exn \<Rightarrow> Inl exn
           | Inr favicon' \<Rightarrow>
               Inr (GoodResult
                 \<lparr> title = title_candidate ex,
                   description = description_candidate ex,
                   image_url = image',
                   favicon = favicon' \<rparr>)))"

text \<open>Lines 49 to 95: what \<open>unfurl\<close> does with a string that passed the first \<open>if\<close>.\<close>

definition fetch_and_extract :: "env \<Rightarrow> string \<Rightarrow> unfurl_outcome" where
  "fetch_and_extract e url =
     (case fetch e url of
        FetchThrows \<Rightarrow> (Inr (BadResult FailedFetch), [url])
      | FetchResponse evs end_of_body \<Rightarrow>
          (case end_of_body of
             StreamError \<Rightarrow> (Inr (BadResult FailedFetch), [url])
           | EndOfStream \<Rightarrow> (resolution e url (transform evs), [url])))"

definition unfurl :: "env \<Rightarrow> js_input \<Rightarrow> unfurl_outcome" where
  "unfurl e url =
     (if bad_param_condition url then (Inr (BadResult BadParam), [])
      else (case url of
              InString s \<Rightarrow> fetch_and_extract e s
            | _ \<Rightarrow> (Inr (BadResult BadParam), [])))"

text \<open>A value that \<open>??\<close> skips: \<open>null\<close> or \<open>undefined\<close>.\<close>

definition nullish :: "jsval \<Rightarrow> bool" where
  "nullish v = (case v of Undefined \<Rightarrow> True | Null \<Rightarrow> True | Str s \<Rightarrow> False)"

section \<open>JSON.stringify on the extracted data\<close>

text \<open>
  \<open>JSON.stringify\<close> of an object whose four properties hold a string, \<open>null\<close> or
  \<open>undefined\<close>: a property that is \<open>undefined\<close> is left out, the others are written
  in the order of the object literal. A string is quoted, with the quotation mark, the
  backslash and the control characters escaped.
\<close>

definition hex_digit :: "nat \<Rightarrow> char" where
  "hex_digit n = ''0123456789abcdef'' ! (n mod 16)"

definition json_escape :: "char \<Rightarrow> string" where
  "json_escape c =
     (if c = CHR 0x08 then [CHR 0x5C, CHR ''b'']
      else if c = CHR 0x09 then [CHR 0x5C, CHR ''t'']
      else if c = CHR 0x0A then [CHR 0x5C, CHR ''n'']
      else if c = CHR 0x0C then [CHR 0x5C, CHR ''f'']
      else if c = CHR 0x0D then [CHR 0x5C, CHR ''r'']
      else if c = CHR 0x22 then [CHR 0x5C, CHR 0x22]
      else if c = CHR 0x5C then [CHR 0x5C, CHR 0x5C]
      else if (of_char c :: nat) < 32 then
        [CHR 0x5C, CHR ''u'', CHR ''0'', CHR ''0'',
         hex_digit ((of_char c :: nat) div 16), hex_digit (of_char c :: nat)]
      else [c])"

definition json_quote :: "string \<Rightarrow> string" where
  "json_quote s = [CHR 0x22] @ concat (map json_escape s) @ [CHR 0x22]"

text \<open>
  The properties that are serialised: those whose value is not \<open>undefined\<close>, in the
  order of the object literal of lines 89 to 94.
\<close>

definition JSON_properties :: "UnfurledData \<Rightarrow> (string \<times> jsval) list" where
  "JSON_properties d =
     filter (\<lambda>(k, v). v \<noteq> Undefined)
       [(''title'', title d), (''description'', description d),
        (''image'', image_url d), (''favicon'', favicon d)]"

definition json_value :: "jsval \<Rightarrow> string" where
  "json_value v = (case v of Null \<Rightarrow> ''null'' | Str s \<Rightarrow> json_quote s | Undefined \<Rightarrow> [])"

definition json_member :: "string \<times> jsval \<Rightarrow> string" where
  "json_member m = json_quote (fst m) @ '':'' @ json_value (snd m)"

fun join_commas :: "string list \<Rightarrow> string" where
  "join_commas [] = []"
| "join_commas [m] = m"
| "join_commas (m # n # ms) = m @ '','' @ join_commas (n # ms)"

definition JSON_stringify :: "UnfurledData \<Rightarrow> string" where
  "JSON_stringify d = ''{'' @ join_commas (map json_member (JSON_properties d)) @ ''}''"

section \<open>Reading the JSON text back\<close>

text \<open>
  What a JSON text serialises is what a reader of JSON gets from it. The reader below
  follows the grammar of JSON for an object whose values are strings or \<open>null\<close>,
  written without white space: it is used to state which members the body of a response
  has. A string is read from behind its opening quotation mark up to the closing one; a
  control character that is not escaped and an unknown escape are refused, and so is a
  \<open>\\u\<close> escape of a code unit above 255, which the strings of this model do not
  have.
\<close>

definition hex_value :: "char \<Rightarrow> nat option" where
  "hex_value c =
     map_of
       (zip ''0123456789abcdefABCDEF''
         [0, 1, 2, 3, 4, 5, 6, 7, 8, 9, 10, 11, 12, 13, 14, 15, 10, 11, 12, 13, 14, 15]) c"

definition json_unescape :: "char \<Rightarrow> char option" where
  "json_unescape c =
     map_of
       [(CHR 0x22, CHR 0x22), (CHR 0x5C, CHR 0x5C), (CHR ''/'', CHR ''/''),
        (CHR ''b'', CHR 0x08), (CHR ''f'', CHR 0x0C), (CHR ''n'', CHR 0x0A),
        (CHR ''r'', CHR 0x0D), (CHR ''t'', CHR 0x09)] c"

definition read_char :: "char \<Rightarrow> (string \<times> string) option \<Rightarrow> (string \<times> string) option" where
  "read_char c r = (case r of None \<Rightarrow> None | Some (s, rest) \<Rightarrow> Some (c # s, rest))"

fun json_read_string :: "string \<Rightarrow> (string \<times> string) option" where
  "json_read_string [] = None"
| "json_read_string (c # cs) =
     (if c = CHR 0x22 then Some ([], cs)
      else if c = CHR 0x5C then
        (case cs of
           [] \<Rightarrow> None
         | e # cs1 \<Rightarrow>
             if e = CHR ''u'' then
               (case cs1 of
                  h1 # h2 # h3 # h4 # cs2 \<Rightarrow>
                    (case (hex_value h1, hex_value h2, hex_value h3, hex_value h4) of
                       (Some a, Some b, Some hi, Some lo) \<Rightarrow>
                         if a = 0 \<and> b = 0 then
                           read_char (char_of (16 * hi + lo)) (json_read_string cs2)
                         else None
                     | _ \<Rightarrow> None)
                | _ \<Rightarrow> None)
             else
               (case json_unescape e of
                  None \<Rightarrow> None
                | Some ch \<Rightarrow> read_char ch (json_read_string cs1)))
      else if (of_char c :: nat) < 32 then None
      else read_char c (json_read_string cs))"

definition json_read_value :: "string \<Rightarrow> (jsval \<times> string) option" where
  "json_read_value cs =
     (case cs of
        [] \<Rightarrow> None
      | c # cs1 \<Rightarrow>
          if c = CHR 0x22 then
            (case json_read_string cs1 of None \<Rightarrow> None | Some (s, rest) \<Rightarrow> Some (Str s, rest))
          else if take 4 cs = ''null'' then Some (Null, drop 4 cs)
          else None)"

definition json_read_member :: "string \<Rightarrow> ((string \<times> jsval) \<times> string) option" where
  "json_read_member cs =
     (case cs of
        [] \<Rightarrow> None
      | c # cs1 \<Rightarrow>
          if c = CHR 0x22 then
            (case json_read_string cs1 of
               None \<Rightarrow> None
             | Some (k, after_key) \<Rightarrow>
                 (case after_key of
                    [] \<Rightarrow> None
                  | colon # cs2 \<Rightarrow>
                      if colon = CHR '':'' then
                        (case json_read_value cs2 of
                           None \<Rightarrow> None
                         | Some (v, rest) \<Rightarrow> Some ((k, v), rest))
                      else None))
          else None)"

text \<open>
  The members after the first one, up to the closing brace, after which the text ends.
  The fuel is a bound on the number of members still to read.
\<close>

fun json_read_more :: "nat \<Rightarrow> string \<Rightarrow> (string \<times> jsval) list option" where
  "json_read_more n [] = None"
| "json_read_more n (c # cs) =
     (if c = CHR ''}'' then (if cs = [] then Some [] else None)
      else if c = CHR '','' then
        (case n of
           0 \<Rightarrow> None
         | Suc k \<Rightarrow>
             (case json_read_member cs of
                None \<Rightarrow> None
              | Some (m, rest) \<Rightarrow>
                  (case json_read_more k rest of None \<Rightarrow> None | Some ms \<Rightarrow> Some (m # ms))))
      else None)"

definition JSON_parse_object :: "string \<Rightarrow> (string \<times> jsval) list option" where
  "JSON_parse_object cs =
     (case cs of
        [] \<Rightarrow> None
      | c # cs1 \<Rightarrow>
          if c = CHR ''{'' then
            (if cs1 = ''}'' then Some []
             else
               (case json_read_member cs1 of
                  None \<Rightarrow> None
                | Some (m, rest) \<Rightarrow>
                    (case json_read_more (length rest) rest of
                       None \<Rightarrow> None
                     | Some ms \<Rightarrow> Some (m # ms))))
          else None)"

section \<open>handleUnfurlRequest\<close>

text \<open>
  A request is given by the query parameters of its URL, in order;
  \<open>searchParams.get(name)\<close> is the value of the first parameter of that name, or
  \<open>null\<close>.
\<close>

record request =
  searchParams :: "(string \<times> string) list"

definition searchParams_get :: "request \<Rightarrow> string \<Rightarrow> jsval" where
  "searchParams_get req n = (case map_of (searchParams req) n of None \<Rightarrow> Null | Some v \<Rightarrow> Str v)"

record response =
  status :: nat
  body :: string
  headers :: "(string \<times> string) list"

text \<open>
  The headers of a response are kept under their names in lower case, as the
  \<open>Headers\<close> object gives them.
\<close>

definition ascii_lower :: "char \<Rightarrow> char" where
  "ascii_lower c =
     (case map_of (zip ''ABCDEFGHIJKLMNOPQRSTUVWXYZ'' ''abcdefghijklmnopqrstuvwxyz'') c of
        None \<Rightarrow> c
      | Some l \<Rightarrow> l)"

definition header_name :: "string \<Rightarrow> string" where
  "header_name n = map ascii_lower n"

text \<open>
  \<open>new Response(body, { status, headers })\<close> for a body that is a string: the status
  is 200 when none is given, and a response whose headers have no \<open>Content-Type\<close>
  gets the one of a string body, \<open>text/plain;charset=UTF-8\<close>.
\<close>

definition new_Response :: "string \<Rightarrow> nat option \<Rightarrow> (string \<times> string) list \<Rightarrow> response" where
  "new_Response b st hs =
     (let given = map (\<lambda>(n, v). (header_name n, v)) hs
      in \<lparr> status = (case st of None \<Rightarrow> 200 | Some n \<Rightarrow> n),
           body = b,
           headers =
             (if map_of given ''content-type'' = None
              then given @ [(''content-type'', ''text/plain;charset=UTF-8'')]
              else given) \<rparr>)"

text \<open>Lines 115 to 123: the response for the result of \<open>unfurl\<close>.\<close>

definition respond :: "(UnfurledData, unfurl_error) result \<Rightarrow> response" where
  "respond r =
     (case r of
        GoodResult v \<Rightarrow>
          new_Response (JSON_stringify v) None [(''Content-Type'', ''application/json'')]
      | BadResult err \<Rightarrow>
          if err = BadParam then new_Response ''Bad URL query parameter.'' (Some 400) []
          else new_Response ''Failed to fetch URL.'' (Some 422) [])"

text \<open>A value of the extractors' type, passed as the argument of \<open>unfurl\<close>.\<close>

definition to_input :: "jsval \<Rightarrow> js_input" where
  "to_input v = (case v of Undefined \<Rightarrow> InUndefined | Null \<Rightarrow> InNull | Str s \<Rightarrow> InString s)"

text \<open>
  The handler is written over the function it calls for the URL, so that what it does
  with each result of that call can be stated; \<open>handleUnfurlRequest\<close> calls \<open>unfurl\<close>.
  An exception of the call is not caught.
\<close>

definition handle_with ::
  "(js_input \<Rightarrow> unfurl_outcome) \<Rightarrow> request \<Rightarrow> (js_exception + response) \<times> string list" where
  "handle_with unfurl_fn req =
     (let url = searchParams_get req ''url''
      in if \<not> truthy url then
           (Inr (new_Response ''Missing URL query parameter.'' (Some 400) []), [])
         else
           (case unfurl_fn (to_input url) of
              (Inl exn, fetched) \<Rightarrow> (Inl exn, fetched)
            | (Inr r, fetched) \<Rightarrow> (Inr (respond r), fetched)))"

definition handleUnfurlRequest :: "env \<Rightarrow> request \<Rightarrow> (js_exception + response) \<times> string list" where
  "handleUnfurlRequest e req = handle_with (unfurl e) req"

section \<open>Example documents\<close>

text \<open>
  A page with two \<open>og:title\<close> metas, a title in two chunks, a description, an absolute
  image and two icons with relative references.
\<close>

definition example_page :: "tag_event list" where
  "example_page =
     [ElementStart ''meta'' [(''charset'', ''utf-8'')],
      ElementStart ''meta'' [(''property'', ''og:title''), (''content'', ''A'')],
      TextChunk ''title'' ''Hel'',
      TextChunk ''title'' ''lo'',
      ElementStart ''meta'' [(''property'', ''og:title''), (''content'', ''B'')],
      ElementStart ''meta'' [(''name'', ''description''), (''content'', ''A page'')],
      ElementStart ''meta'' [(''name'', ''twitter:image''), (''content'', ''/card.png'')],
      ElementStart ''meta''
        [(''property'', ''og:image''), (''content'', ''https://cdn.example.com/icon.png'')],
      ElementStart ''link'' [(''rel'', ''shortcut icon''), (''href'', ''/old.ico'')],
      ElementStart ''link'' [(''rel'', ''icon''), (''href'', ''/favicon.ico'')]]"

text \<open>A page with no title element and no title meta.\<close>

definition untitled_page :: "tag_event list" where
  "untitled_page =
     [ElementStart ''meta'' [(''charset'', ''utf-8'')],
      ElementStart ''link'' [(''rel'', ''stylesheet''), (''href'', ''/site.css'')]]"

text \<open>A page with both kinds of icon, the standard one first.\<close>

definition icons_page :: "tag_event list" where
  "icons_page =
     [ElementStart ''link'' [(''rel'', ''icon''), (''href'', ''/favicon.ico'')],
      ElementStart ''link'' [(''rel'', ''apple-touch-icon''), (''href'', ''/apple.png'')],
      ElementStart ''meta'' [(''name'', ''twitter:image''), (''content'', ''/card.png'')],
      ElementStart ''meta'' [(''property'', ''og:image:secure_url''), (''content'', ''httpfoo'')]]"

text \<open>A page whose icon reference is no URL: a host that opens a bracket and never closes it.\<close>

definition bad_icon_page :: "tag_event list" where
  "bad_icon_page =
     [TextChunk ''title'' ''Icons'',
      ElementStart ''link'' [(''rel'', ''icon''), (''href'', ''//['')]]"

text \<open>
  A page whose title and description hold the characters that a JSON string escapes: the
  quotation mark, the backslash, and the control characters with and without a short
  escape.
\<close>

definition quoted_page :: "tag_event list" where
  "quoted_page =
     [ElementStart ''meta''
        [(''property'', ''og:title''),
         (''content'', [CHR ''a'', CHR 0x22, CHR 0x5C, CHR 0x0A, CHR ''/'', CHR ''b''])],
      ElementStart ''meta''
        [(''name'', ''description''),
         (''content'', [CHR 0x08, CHR 0x0C, CHR 0x0D, CHR 0x09, CHR 0x1F, CHR 0x7F])],
      ElementStart ''meta''
        [(''property'', ''og:image''), (''content'', ''https://cdn.example.com/icon.png'')]]"

text \<open>
  The JSON text of what is extracted from that page: the title, the description with
  its escapes and the image; there is no favicon.
\<close>

definition quoted_page_json :: string where
  "quoted_page_json =
     [CHR ''{'', CHR 0x22] @ ''title'' @ [CHR 0x22, CHR '':'', CHR 0x22] @
     [CHR ''a'', CHR 0x5C, CHR 0x22, CHR 0x5C, CHR 0x5C, CHR 0x5C, CHR ''n'', CHR ''/'', CHR ''b''] @
     [CHR 0x22, CHR '','', CHR 0x22] @ ''description'' @ [CHR 0x22, CHR '':'', CHR 0x22] @
     [CHR 0x5C, CHR ''b'', CHR 0x5C, CHR ''f'', CHR 0x5C, CHR ''r'', CHR 0x5C, CHR ''t'',
      CHR 0x5C] @ ''u001f'' @ [CHR 0x7F] @
     [CHR 0x22, CHR '','', CHR 0x22] @ ''image'' @ [CHR 0x22, CHR '':'', CHR 0x22] @
     ''https://cdn.example.com/icon.png'' @ [CHR 0x22, CHR ''}'']"

text \<open>
  An environment for the examples: five pages, a host that cannot be reached and a
  page whose stream breaks; the URL parser resolves the one reference of the examples
  and throws on every other.
\<close>

definition example_env :: env where
  "example_env =
     \<lparr> fetch = (\<lambda>u.
         if u = ''https://example.com/page'' then FetchResponse example_page EndOfStream
         else if u = ''https://example.com/untitled'' then FetchResponse untitled_page EndOfStream
         else if u = ''https://example.com/broken'' then FetchResponse example_page StreamError
         else if u = ''https://example.com/bad-icon'' then FetchResponse bad_icon_page EndOfStream
         else if u = ''https://example.com/quoted'' then FetchResponse quoted_page EndOfStream
         else FetchThrows),
       URL_href = (\<lambda>ref base.
         if ref = ''/favicon.ico'' \<and> base = ''https://example.com/page''
         then Some ''https://example.com/favicon.ico''
         else None) \<rparr>"

section \<open>The validation of the argument\<close>

lemma no_string_has_both_prefixes:
  "\<not> (startsWith s ''http://'' \<and> startsWith s ''https://'')"
proof
  assume both: "startsWith s ''http://'' \<and> startsWith s ''https://''"
  then have "prefix ''http://'' s" and "prefix ''https://'' s"
    by (simp_all add: startsWith_def)
  then have "prefix ''http://'' ''https://'' \<or> prefix ''https://'' ''http://''"
    by (rule prefix_same_cases)
  then show False by simp
qed

lemma bad_param_condition_always: "bad_param_condition url"
  using no_string_has_both_prefixes
  by (cases url) (auto simp: bad_param_condition_def typeof_def)

text \<open>
  C1: whatever the argument is, a string starting with "http://" or with "https://"
  included, the condition of the first \<open>if\<close> holds, so \<open>unfurl\<close> returns the failure
  \<open>bad-param\<close>, never calls \<open>fetch\<close> and never returns a success: the code after the
  first \<open>if\<close> is never reached.
\<close>

theorem unfurl_always_bad_param:
  "bad_param_condition url \<and> unfurl e url = (Inr (BadResult BadParam), [])"
  by (simp add: unfurl_def bad_param_condition_always)

theorem unfurl_always_bad_param_witness:
  "bad_param_condition (InString ''https://example.com/page'') \<and>
   unfurl example_env (InString ''https://example.com/page'') = (Inr (BadResult BadParam), [])"
  by (rule unfurl_always_bad_param)

text \<open>
  C3: for the empty string and for every argument that is not a string, \<open>unfurl\<close>
  returns the failure \<open>bad-param\<close> and has passed no URL to \<open>fetch\<close>. The proof uses
  the first two disjuncts of the condition only.
\<close>

theorem unfurl_rejects_non_string_and_empty:
  "typeof url \<noteq> ''string'' \<or> url = InString [] \<Longrightarrow>
   unfurl e url = (Inr (BadResult BadParam), [])"
  by (cases url) (auto simp: unfurl_def bad_param_condition_def typeof_def startsWith_def)

theorem unfurl_rejects_non_string_and_empty_witness:
  "unfurl example_env (InNumber 42) = (Inr (BadResult BadParam), []) \<and>
   unfurl example_env InNull = (Inr (BadResult BadParam), []) \<and>
   unfurl example_env (InString []) = (Inr (BadResult BadParam), [])"
  using unfurl_rejects_non_string_and_empty [of "InNumber 42" example_env]
    unfurl_rejects_non_string_and_empty [of InNull example_env]
    unfurl_rejects_non_string_and_empty [of "InString []" example_env]
  by (simp add: typeof_def)

section \<open>The resolution step\<close>

lemmas value_defs =
  truthy_def nullish_def nullish_or_def val_startsWith_def startsWith_def ToString_def
  get_prop_def set_prop_def getAttribute_def

lemmas extractor_defs =
  transform_def dispatch_def extractors_new_def MetaExtractor_new_def TextExtractor_new_def
  IconExtractor_new_def MetaExtractor_element_def IconExtractor_element_def
  TextExtractor_text_def

lemmas candidate_defs =
  title_candidate_def description_candidate_def image_candidate_def favicon_candidate_def

lemma resolution_fields:
  "resolution e url ex = Inr (GoodResult d) \<Longrightarrow>
   title d = title_candidate ex \<and> description d = description_candidate ex \<and>
   absolutize e url (image_candidate ex) = Inr (image_url d) \<and>
   absolutize e url (favicon_candidate ex) = Inr (favicon d)"
  by (auto simp: resolution_def split: sum.splits)



lemma example_env_fetch:
  "fetch example_env ''https://example.com/page'' = FetchResponse example_page EndOfStream"
  "fetch example_env ''https://example.com/untitled'' = FetchResponse untitled_page EndOfStream"
  "fetch example_env ''https://example.com/broken'' = FetchResponse example_page StreamError"
  "fetch example_env ''https://example.com/bad-icon'' = FetchResponse bad_icon_page EndOfStream"
  "fetch example_env ''https://example.com/quoted'' = FetchResponse quoted_page EndOfStream"
  "fetch example_env ''https://unreachable.example/'' = FetchThrows"
  by (simp_all add: example_env_def)


lemma example_page_extracted:
  "get_prop (og (meta_ex (transform example_page))) ''og:title'' = Str ''B''"
  "get_prop (twitter (meta_ex (transform example_page))) ''twitter:title'' = Undefined"
  "text_string (title_ex (transform example_page)) = ''Hello''"
  "get_prop (og (meta_ex (transform example_page))) ''og:image:secure_url'' = Undefined"
  "get_prop (og (meta_ex (transform example_page))) ''og:image'' =
     Str ''https://cdn.example.com/icon.png''"
  "get_prop (twitter (meta_ex (transform example_page))) ''twitter:image'' = Str ''/card.png''"
  "appleIcon (icon_ex (transform example_page)) = Null"
  "icon (icon_ex (transform example_page)) = Str ''/favicon.ico''"
  by (simp_all add: example_page_def extractor_defs value_defs)

lemma example_page_candidates:
  "title_candidate (transform example_page) = Str ''B''"
  "description_candidate (transform example_page) = Str ''A page''"
  "image_candidate (transform example_page) = Str ''https://cdn.example.com/icon.png''"
  "favicon_candidate (transform example_page) = Str ''/favicon.ico''"
  by (simp_all add: example_page_def extractor_defs value_defs candidate_defs)

lemma example_page_resolution:
  "resolution example_env ''https://example.com/page'' (transform example_page) =
     Inr (GoodResult
       \<lparr> title = Str ''B'', description = Str ''A page'',
         image_url = Str ''https://cdn.example.com/icon.png'',
         favicon = Str ''https://example.com/favicon.ico'' \<rparr>)"
  by (simp add: resolution_def example_page_candidates absolutize_def example_env_def
      truthy_def val_startsWith_def startsWith_def ToString_def)




text \<open>
  C4: the title that the resolution step selects is the value stored under \<open>og:title\<close>
  when that is a string, else the value stored under \<open>twitter:title\<close> when that is a
  string, else the string of the title's text extractor; so whenever a string is stored
  under \<open>og:title\<close> the title is that string, whatever the text of the title element
  is. The step returns a success with that title whenever the URL parser throws on
  neither the image nor the favicon candidate, and every success it returns has that
  title.
\<close>

theorem title_priority:
  "(\<forall>a. get_prop (og (meta_ex ex)) ''og:title'' = Str a \<longrightarrow> title_candidate ex = Str a) \<and>
   (\<forall>b. nullish (get_prop (og (meta_ex ex)) ''og:title'') \<and>
        get_prop (twitter (meta_ex ex)) ''twitter:title'' = Str b \<longrightarrow>
      title_candidate ex = Str b) \<and>
   (nullish (get_prop (og (meta_ex ex)) ''og:title'') \<and>
    nullish (get_prop (twitter (meta_ex ex)) ''twitter:title'') \<longrightarrow>
      title_candidate ex = Str (text_string (title_ex ex))) \<and>
   (\<forall>e url image' favicon'.
      absolutize e url (image_candidate ex) = Inr image' \<and>
      absolutize e url (favicon_candidate ex) = Inr favicon' \<longrightarrow>
      resolution e url ex =
        Inr (GoodResult
          \<lparr> title = title_candidate ex, description = description_candidate ex,
            image_url = image', favicon = favicon' \<rparr>)) \<and>
   (\<forall>e url d. resolution e url ex = Inr (GoodResult d) \<longrightarrow> title d = title_candidate ex)"
proof -
  let ?og_title = "get_prop (og (meta_ex ex)) ''og:title''"
  let ?tw_title = "get_prop (twitter (meta_ex ex)) ''twitter:title''"
  have t1: "\<forall>a. ?og_title = Str a \<longrightarrow> title_candidate ex = Str a"
    by (simp add: title_candidate_def nullish_or_def)
  have t2: "\<forall>b. nullish ?og_title \<and> ?tw_title = Str b \<longrightarrow> title_candidate ex = Str b"
    by (simp add: title_candidate_def nullish_or_def nullish_def split: jsval.splits)
  have t3: "nullish ?og_title \<and> nullish ?tw_title \<longrightarrow>
      title_candidate ex = Str (text_string (title_ex ex))"
    by (simp add: title_candidate_def nullish_or_def nullish_def split: jsval.splits)
  have returns: "\<forall>e url image' favicon'.
      absolutize e url (image_candidate ex) = Inr image' \<and>
      absolutize e url (favicon_candidate ex) = Inr favicon' \<longrightarrow>
      resolution e url ex =
        Inr (GoodResult
          \<lparr> title = title_candidate ex, description = description_candidate ex,
            image_url = image', favicon = favicon' \<rparr>)"
    by (simp add: resolution_def)
  have returned: "\<forall>e url d. resolution e url ex = Inr (GoodResult d) \<longrightarrow>
      title d = title_candidate ex"
    by (simp add: resolution_fields)
  show ?thesis
    by (intro conjI; fact)
qed

theorem title_priority_witness:
  "get_prop (og (meta_ex (transform example_page))) ''og:title'' = Str ''B'' \<and>
   text_string (title_ex (transform example_page)) = ''Hello'' \<and>
   title_candidate (transform example_page) = Str ''B'' \<and>
   resolution example_env ''https://example.com/page'' (transform example_page) =
     Inr (GoodResult
       \<lparr> title = Str ''B'', description = Str ''A page'',
         image_url = Str ''https://cdn.example.com/icon.png'',
         favicon = Str ''https://example.com/favicon.ico'' \<rparr>)"
proof -
  note priority = title_priority [of "transform example_page"]
  have og_title: "get_prop (og (meta_ex (transform example_page))) ''og:title'' = Str ''B''"
    and buffer: "text_string (title_ex (transform example_page)) = ''Hello''"
    by (simp_all add: example_page_extracted)
  from priority og_title have selected: "title_candidate (transform example_page) = Str ''B''"
    by blast
  have "absolutize example_env ''https://example.com/page''
      (image_candidate (transform example_page)) = Inr (Str ''https://cdn.example.com/icon.png'')"
    and "absolutize example_env ''https://example.com/page''
      (favicon_candidate (transform example_page)) = Inr (Str ''https://example.com/favicon.ico'')"
    by (simp_all add: example_page_candidates absolutize_def example_env_def truthy_def
        val_startsWith_def startsWith_def ToString_def)
  with priority have "resolution example_env ''https://example.com/page'' (transform example_page) =
      Inr (GoodResult
        \<lparr> title = title_candidate (transform example_page),
          description = description_candidate (transform example_page),
          image_url = Str ''https://cdn.example.com/icon.png'',
          favicon = Str ''https://example.com/favicon.ico'' \<rparr>)"
    by blast
  then have "resolution example_env ''https://example.com/page'' (transform example_page) =
      Inr (GoodResult
        \<lparr> title = Str ''B'', description = Str ''A page'',
          image_url = Str ''https://cdn.example.com/icon.png'',
          favicon = Str ''https://example.com/favicon.ico'' \<rparr>)"
    by (simp add: selected example_page_candidates)
  with og_title buffer selected show ?thesis
    by (intro conjI)
qed

lemma icons_page_extracted:
  "get_prop (og (meta_ex (transform icons_page))) ''og:image:secure_url'' = Str ''httpfoo''"
  "get_prop (twitter (meta_ex (transform icons_page))) ''twitter:image'' = Str ''/card.png''"
  "appleIcon (icon_ex (transform icons_page)) = Str ''/apple.png''"
  "icon (icon_ex (transform icons_page)) = Str ''/favicon.ico''"
  by (simp_all add: icons_page_def extractor_defs value_defs)

text \<open>
  C6: the image candidate is the value stored under \<open>og:image:secure_url\<close> when that is
  a string, else the one under \<open>og:image\<close>, else the one under \<open>twitter:image\<close>, else
  \<open>undefined\<close>; the favicon candidate is the href of the apple-touch-icon when that is a
  string, else the href of the standard icon, else \<open>undefined\<close>. These candidates are
  what the resolution step normalizes into the fields \<open>image\<close> and \<open>favicon\<close>.
\<close>

theorem candidate_priority:
  "(\<forall>s. get_prop (og (meta_ex ex)) ''og:image:secure_url'' = Str s \<longrightarrow>
        image_candidate ex = Str s) \<and>
   (\<forall>s. nullish (get_prop (og (meta_ex ex)) ''og:image:secure_url'') \<and>
        get_prop (og (meta_ex ex)) ''og:image'' = Str s \<longrightarrow>
        image_candidate ex = Str s) \<and>
   (\<forall>s. nullish (get_prop (og (meta_ex ex)) ''og:image:secure_url'') \<and>
        nullish (get_prop (og (meta_ex ex)) ''og:image'') \<and>
        get_prop (twitter (meta_ex ex)) ''twitter:image'' = Str s \<longrightarrow>
        image_candidate ex = Str s) \<and>
   (nullish (get_prop (og (meta_ex ex)) ''og:image:secure_url'') \<and>
    nullish (get_prop (og (meta_ex ex)) ''og:image'') \<and>
    nullish (get_prop (twitter (meta_ex ex)) ''twitter:image'') \<longrightarrow>
        image_candidate ex = Undefined) \<and>
   (\<forall>s. appleIcon (icon_ex ex) = Str s \<longrightarrow> favicon_candidate ex = Str s) \<and>
   (\<forall>s. nullish (appleIcon (icon_ex ex)) \<and> icon (icon_ex ex) = Str s \<longrightarrow>
        favicon_candidate ex = Str s) \<and>
   (nullish (appleIcon (icon_ex ex)) \<and> nullish (icon (icon_ex ex)) \<longrightarrow>
        favicon_candidate ex = Undefined) \<and>
   (\<forall>e url d. resolution e url ex = Inr (GoodResult d) \<longrightarrow>
        absolutize e url (image_candidate ex) = Inr (image_url d) \<and>
        absolutize e url (favicon_candidate ex) = Inr (favicon d))"
proof -
  let ?secure = "get_prop (og (meta_ex ex)) ''og:image:secure_url''"
  let ?og_image = "get_prop (og (meta_ex ex)) ''og:image''"
  let ?tw_image = "get_prop (twitter (meta_ex ex)) ''twitter:image''"
  have i1: "\<forall>s. ?secure = Str s \<longrightarrow> image_candidate ex = Str s"
    by (simp add: image_candidate_def nullish_or_def)
  have i2: "\<forall>s. nullish ?secure \<and> ?og_image = Str s \<longrightarrow> image_candidate ex = Str s"
    by (simp add: image_candidate_def nullish_or_def nullish_def split: jsval.splits)
  have i3: "\<forall>s. nullish ?secure \<and> nullish ?og_image \<and> ?tw_image = Str s \<longrightarrow>
      image_candidate ex = Str s"
    by (simp add: image_candidate_def nullish_or_def nullish_def split: jsval.splits)
  have i4: "nullish ?secure \<and> nullish ?og_image \<and> nullish ?tw_image \<longrightarrow>
      image_candidate ex = Undefined"
    by (simp add: image_candidate_def nullish_or_def nullish_def split: jsval.splits)
  have f1: "\<forall>s. appleIcon (icon_ex ex) = Str s \<longrightarrow> favicon_candidate ex = Str s"
    by (simp add: favicon_candidate_def nullish_or_def)
  have f2: "\<forall>s. nullish (appleIcon (icon_ex ex)) \<and> icon (icon_ex ex) = Str s \<longrightarrow>
      favicon_candidate ex = Str s"
    by (simp add: favicon_candidate_def nullish_or_def nullish_def split: jsval.splits)
  have f3: "nullish (appleIcon (icon_ex ex)) \<and> nullish (icon (icon_ex ex)) \<longrightarrow>
      favicon_candidate ex = Undefined"
    by (simp add: favicon_candidate_def nullish_or_def nullish_def split: jsval.splits)
  have fields: "\<forall>e url d. resolution e url ex = Inr (GoodResult d) \<longrightarrow>
        absolutize e url (image_candidate ex) = Inr (image_url d) \<and>
        absolutize e url (favicon_candidate ex) = Inr (favicon d)"
    by (simp add: resolution_fields)
  show ?thesis
    by (intro conjI; fact)
qed

theorem candidate_priority_witness:
  "image_candidate (transform example_page) = Str ''https://cdn.example.com/icon.png'' \<and>
   favicon_candidate (transform example_page) = Str ''/favicon.ico'' \<and>
   image_candidate (transform icons_page) = Str ''httpfoo'' \<and>
   favicon_candidate (transform icons_page) = Str ''/apple.png''"
  using candidate_priority [of "transform example_page"]
    candidate_priority [of "transform icons_page"]
  by (simp add: example_page_extracted icons_page_extracted nullish_def)

text \<open>
  C7: when the resolution step returns, a candidate for \<open>image\<close> or \<open>favicon\<close> that is
  a non-empty string not starting with "http" has been replaced by the href that
  \<open>new URL(candidate, url)\<close> gives for the request URL; a candidate starting with
  "http", an empty one and an absent one are returned as they are; \<open>title\<close> and
  \<open>description\<close> are the selected candidates themselves, whatever the URL parser and
  the request URL are.
\<close>

theorem url_normalization:
  "resolution e url ex = Inr (GoodResult d) \<Longrightarrow>
   (\<forall>s. image_candidate ex = Str s \<and> s \<noteq> [] \<and> \<not> startsWith s ''http'' \<longrightarrow>
        map_option Str (URL_href e s url) = Some (image_url d)) \<and>
   (\<forall>s. image_candidate ex = Str s \<and> startsWith s ''http'' \<longrightarrow> image_url d = Str s) \<and>
   (\<not> truthy (image_candidate ex) \<longrightarrow> image_url d = image_candidate ex) \<and>
   (\<forall>s. favicon_candidate ex = Str s \<and> s \<noteq> [] \<and> \<not> startsWith s ''http'' \<longrightarrow>
        map_option Str (URL_href e s url) = Some (favicon d)) \<and>
   (\<forall>s. favicon_candidate ex = Str s \<and> startsWith s ''http'' \<longrightarrow> favicon d = Str s) \<and>
   (\<not> truthy (favicon_candidate ex) \<longrightarrow> favicon d = favicon_candidate ex) \<and>
   title d = title_candidate ex \<and> description d = description_candidate ex"
proof -
  assume res: "resolution e url ex = Inr (GoodResult d)"
  have absolutized: "absolutize e url v = Inr w \<Longrightarrow>
      (\<forall>s. v = Str s \<and> s \<noteq> [] \<and> \<not> startsWith s ''http'' \<longrightarrow>
           map_option Str (URL_href e s url) = Some w) \<and>
      (\<forall>s. v = Str s \<and> startsWith s ''http'' \<longrightarrow> w = Str s) \<and>
      (\<not> truthy v \<longrightarrow> w = v)" for v w
    by (auto simp: absolutize_def truthy_def val_startsWith_def ToString_def
        split: if_splits option.splits jsval.splits)
  from res have "absolutize e url (image_candidate ex) = Inr (image_url d)"
    and "absolutize e url (favicon_candidate ex) = Inr (favicon d)"
    and "title d = title_candidate ex" and "description d = description_candidate ex"
    by (simp_all add: resolution_fields)
  then show ?thesis
    using absolutized [of "image_candidate ex" "image_url d"]
      absolutized [of "favicon_candidate ex" "favicon d"]
    by simp
qed

theorem url_normalization_witness:
  "favicon_candidate (transform example_page) = Str ''/favicon.ico'' \<and>
   image_candidate (transform example_page) = Str ''https://cdn.example.com/icon.png'' \<and>
   resolution example_env ''https://example.com/page'' (transform example_page) =
     Inr (GoodResult
       \<lparr> title = Str ''B'', description = Str ''A page'',
         image_url = Str ''https://cdn.example.com/icon.png'',
         favicon = Str ''https://example.com/favicon.ico'' \<rparr>) \<and>
   URL_href example_env ''/favicon.ico'' ''https://example.com/page'' =
     Some ''https://example.com/favicon.ico''"
  using url_normalization [OF example_page_resolution]
  by (simp add: example_page_candidates example_page_resolution startsWith_def)

section \<open>Failures after the validation\<close>

lemma resolution_returns_success:
  "resolution e url ex = Inr r \<Longrightarrow> \<exists>d. r = GoodResult d"
  by (auto simp: resolution_def split: sum.splits)

text \<open>
  What the \<open>try\<close> block of lines 53 to 62 does: a \<open>fetch\<close> that throws and a stream
  that ends with an error give the failure \<open>failed-fetch\<close>, and no failure of another
  kind is returned.
\<close>

lemma try_block_failures_are_failed_fetch:
  "(fetch e url = FetchThrows \<longrightarrow>
      fetch_and_extract e url = (Inr (BadResult FailedFetch), [url])) \<and>
   (\<forall>evs. fetch e url = FetchResponse evs StreamError \<longrightarrow>
      fetch_and_extract e url = (Inr (BadResult FailedFetch), [url])) \<and>
   (\<forall>err. fst (fetch_and_extract e url) = Inr (BadResult err) \<longrightarrow>
      err = FailedFetch \<and>
      (fetch e url = FetchThrows \<or> (\<exists>evs. fetch e url = FetchResponse evs StreamError))) \<and>
   (\<forall>d. fst (fetch_and_extract e url) = Inr (GoodResult d) \<longrightarrow>
      (\<exists>evs. fetch e url = FetchResponse evs EndOfStream \<and>
             resolution e url (transform evs) = Inr (GoodResult d)))"
  by (auto simp: fetch_and_extract_def split: fetch_outcome.splits stream_end.splits
      dest: resolution_returns_success)



section \<open>The link and meta extractors\<close>

text \<open>
  C8: a link element stores its href as the standard icon exactly when its \<open>rel\<close> is
  the string "icon", and as the Apple icon exactly when its \<open>rel\<close> is the string
  "apple-touch-icon"; with any other \<open>rel\<close>, "shortcut icon" included, and with no
  \<open>rel\<close>, both stored icons stay as they were.
\<close>

theorem icon_rel_exact_match:
  "dispatch ex (ElementStart ''link'' el) =
     ex\<lparr> icon_ex := IconExtractor_element (icon_ex ex) el \<rparr> \<and>
   (map_of el ''rel'' = Some ''icon'' \<longrightarrow>
      IconExtractor_element this el = this\<lparr> icon := getAttribute el ''href'' \<rparr>) \<and>
   (map_of el ''rel'' = Some ''apple-touch-icon'' \<longrightarrow>
      IconExtractor_element this el = this\<lparr> appleIcon := getAttribute el ''href'' \<rparr>) \<and>
   (map_of el ''rel'' \<noteq> Some ''icon'' \<longrightarrow>
      icon (IconExtractor_element this el) = icon this) \<and>
   (map_of el ''rel'' \<noteq> Some ''apple-touch-icon'' \<longrightarrow>
      appleIcon (IconExtractor_element this el) = appleIcon this) \<and>
   (map_of el ''rel'' = Some ''shortcut icon'' \<longrightarrow> IconExtractor_element this el = this)"
  by (auto simp: dispatch_def IconExtractor_element_def getAttribute_def split: option.splits)

theorem icon_rel_exact_match_witness:
  "IconExtractor_element \<lparr> appleIcon = Null, icon = Str ''/favicon.ico'' \<rparr>
     [(''rel'', ''shortcut icon''), (''href'', ''/old.ico'')] =
     \<lparr> appleIcon = Null, icon = Str ''/favicon.ico'' \<rparr> \<and>
   IconExtractor_element \<lparr> appleIcon = Null, icon = Str ''/favicon.ico'' \<rparr>
     [(''rel'', ''icon''), (''href'', ''/new.ico'')] =
     \<lparr> appleIcon = Null, icon = Str ''/new.ico'' \<rparr> \<and>
   IconExtractor_element \<lparr> appleIcon = Null, icon = Str ''/favicon.ico'' \<rparr>
     [(''rel'', ''apple-touch-icon''), (''href'', ''/apple.png'')] =
     \<lparr> appleIcon = Str ''/apple.png'', icon = Str ''/favicon.ico'' \<rparr>"
  using icon_rel_exact_match
      [of extractors_new "[(''rel'', ''shortcut icon''), (''href'', ''/old.ico'')]"
          "\<lparr> appleIcon = Null, icon = Str ''/favicon.ico'' \<rparr>"]
    icon_rel_exact_match
      [of extractors_new "[(''rel'', ''icon''), (''href'', ''/new.ico'')]"
          "\<lparr> appleIcon = Null, icon = Str ''/favicon.ico'' \<rparr>"]
    icon_rel_exact_match
      [of extractors_new "[(''rel'', ''apple-touch-icon''), (''href'', ''/apple.png'')]"
          "\<lparr> appleIcon = Null, icon = Str ''/favicon.ico'' \<rparr>"]
  by (simp add: getAttribute_def)

lemma meta_rule_og:
  "map_of el ''property'' = Some p \<Longrightarrow> startsWith p ''og:'' \<Longrightarrow>
   MetaExtractor_element this el = this\<lparr> og := (og this)(p \<mapsto> getAttribute el ''content'') \<rparr>"
  by (auto simp: MetaExtractor_element_def value_defs Let_def)

lemma meta_rule_twitter:
  "\<not> (\<exists>p. map_of el ''property'' = Some p \<and> startsWith p ''og:'') \<Longrightarrow>
   map_of el ''name'' = Some n \<Longrightarrow> startsWith n ''twitter:'' \<Longrightarrow>
   MetaExtractor_element this el =
     this\<lparr> twitter := (twitter this)(n \<mapsto> getAttribute el ''content'') \<rparr>"
  by (auto simp: MetaExtractor_element_def value_defs Let_def split: option.splits)

lemma meta_rule_description:
  "\<not> (\<exists>p. map_of el ''property'' = Some p \<and> startsWith p ''og:'') \<Longrightarrow>
   map_of el ''name'' = Some ''description'' \<Longrightarrow>
   MetaExtractor_element this el = this\<lparr> meta_description := getAttribute el ''content'' \<rparr>"
  by (auto simp: MetaExtractor_element_def value_defs Let_def split: option.splits)

lemma meta_rule_ignored:
  "\<not> (\<exists>p. map_of el ''property'' = Some p \<and> startsWith p ''og:'') \<Longrightarrow>
   \<not> (\<exists>n. map_of el ''name'' = Some n \<and> startsWith n ''twitter:'') \<Longrightarrow>
   map_of el ''name'' \<noteq> Some ''description'' \<Longrightarrow>
   MetaExtractor_element this el = this"
  by (auto simp: MetaExtractor_element_def value_defs Let_def split: option.splits)

lemma dispatch_keeps_og_key:
  "\<forall>el. ev = ElementStart ''meta'' el \<longrightarrow> map_of el ''property'' \<noteq> Some p \<Longrightarrow>
   og (meta_ex (dispatch ex ev)) p = og (meta_ex ex) p"
  by (auto simp: dispatch_def MetaExtractor_element_def value_defs Let_def
      split: tag_event.splits option.splits)

lemma foldl_dispatch_keeps_og_key:
  "\<forall>ev\<in>set evs. \<forall>el. ev = ElementStart ''meta'' el \<longrightarrow> map_of el ''property'' \<noteq> Some p \<Longrightarrow>
   og (meta_ex (foldl dispatch ex evs)) p = og (meta_ex ex) p"
  by (induction evs arbitrary: ex) (simp_all add: dispatch_keeps_og_key)

lemma last_og_meta_wins:
  assumes "map_of el ''property'' = Some p" and "startsWith p ''og:''"
    and "\<forall>ev\<in>set rest. \<forall>el'. ev = ElementStart ''meta'' el' \<longrightarrow> map_of el' ''property'' \<noteq> Some p"
  shows "get_prop (og (meta_ex (transform (evs @ ElementStart ''meta'' el # rest)))) p =
    getAttribute el ''content''"
proof -
  let ?before = "foldl dispatch extractors_new evs"
  have "og (meta_ex (transform (evs @ ElementStart ''meta'' el # rest))) p =
      og (meta_ex (dispatch ?before (ElementStart ''meta'' el))) p"
    using assms(3) by (simp add: transform_def foldl_dispatch_keeps_og_key)
  also have "\<dots> = Some (getAttribute el ''content'')"
    using assms(1,2) by (simp add: dispatch_def meta_rule_og)
  finally show ?thesis by (simp add: get_prop_def)
qed

lemma dispatch_keeps_twitter_key:
  "\<forall>el. ev = ElementStart ''meta'' el \<longrightarrow> map_of el ''name'' \<noteq> Some n \<Longrightarrow>
   twitter (meta_ex (dispatch ex ev)) n = twitter (meta_ex ex) n"
  by (auto simp: dispatch_def MetaExtractor_element_def value_defs Let_def
      split: tag_event.splits option.splits)

lemma foldl_dispatch_keeps_twitter_key:
  "\<forall>ev\<in>set evs. \<forall>el. ev = ElementStart ''meta'' el \<longrightarrow> map_of el ''name'' \<noteq> Some n \<Longrightarrow>
   twitter (meta_ex (foldl dispatch ex evs)) n = twitter (meta_ex ex) n"
  by (induction evs arbitrary: ex) (simp_all add: dispatch_keeps_twitter_key)

lemma last_twitter_meta_wins:
  assumes "\<not> (\<exists>p. map_of el ''property'' = Some p \<and> startsWith p ''og:'')"
    and "map_of el ''name'' = Some n" and "startsWith n ''twitter:''"
    and "\<forall>ev\<in>set rest. \<forall>el'. ev = ElementStart ''meta'' el' \<longrightarrow> map_of el' ''name'' \<noteq> Some n"
  shows "get_prop (twitter (meta_ex (transform (evs @ ElementStart ''meta'' el # rest)))) n =
    getAttribute el ''content''"
proof -
  let ?before = "foldl dispatch extractors_new evs"
  have "twitter (meta_ex (transform (evs @ ElementStart ''meta'' el # rest))) n =
      twitter (meta_ex (dispatch ?before (ElementStart ''meta'' el))) n"
    using assms(4) by (simp add: transform_def foldl_dispatch_keeps_twitter_key)
  also have "\<dots> = Some (getAttribute el ''content'')"
    using assms(1,2,3) by (simp add: dispatch_def meta_rule_twitter)
  finally show ?thesis by (simp add: get_prop_def)
qed

lemma dispatch_keeps_description:
  "\<forall>el. ev = ElementStart ''meta'' el \<longrightarrow> map_of el ''name'' \<noteq> Some ''description'' \<Longrightarrow>
   meta_description (meta_ex (dispatch ex ev)) = meta_description (meta_ex ex)"
  by (auto simp: dispatch_def MetaExtractor_element_def value_defs Let_def
      split: tag_event.splits option.splits)

lemma foldl_dispatch_keeps_description:
  "\<forall>ev\<in>set evs. \<forall>el. ev = ElementStart ''meta'' el \<longrightarrow>
     map_of el ''name'' \<noteq> Some ''description'' \<Longrightarrow>
   meta_description (meta_ex (foldl dispatch ex evs)) = meta_description (meta_ex ex)"
  by (induction evs arbitrary: ex) (simp_all add: dispatch_keeps_description)

lemma last_description_meta_wins:
  assumes "\<not> (\<exists>p. map_of el ''property'' = Some p \<and> startsWith p ''og:'')"
    and "map_of el ''name'' = Some ''description''"
    and "\<forall>ev\<in>set rest. \<forall>el'. ev = ElementStart ''meta'' el' \<longrightarrow>
      map_of el' ''name'' \<noteq> Some ''description''"
  shows "meta_description (meta_ex (transform (evs @ ElementStart ''meta'' el # rest))) =
    getAttribute el ''content''"
proof -
  let ?before = "foldl dispatch extractors_new evs"
  have "meta_description (meta_ex (transform (evs @ ElementStart ''meta'' el # rest))) =
      meta_description (meta_ex (dispatch ?before (ElementStart ''meta'' el)))"
    using assms(3) by (simp add: transform_def foldl_dispatch_keeps_description)
  also have "\<dots> = getAttribute el ''content''"
    using assms(1,2) by (simp add: dispatch_def meta_rule_description)
  finally show ?thesis .
qed

text \<open>
  C5: a meta element is handled by the first rule that applies, and by that rule only:
  a \<open>property\<close> starting with "og:" stores the content under that property in the Open
  Graph object; else a \<open>name\<close> starting with "twitter:" stores it under that name in the
  Twitter object; else the name "description" stores it as the description; else
  nothing changes. The value read under an Open Graph key after the pass is the content
  of the last meta element with that property, so a later element overwrites an earlier
  one; the same holds for a Twitter key and for the description.
\<close>

theorem meta_classification:
  "dispatch ex (ElementStart ''meta'' el) =
     ex\<lparr> meta_ex := MetaExtractor_element (meta_ex ex) el \<rparr> \<and>
   (\<forall>p. map_of el ''property'' = Some p \<and> startsWith p ''og:'' \<longrightarrow>
      MetaExtractor_element this el =
        this\<lparr> og := (og this)(p \<mapsto> getAttribute el ''content'') \<rparr>) \<and>
   (\<forall>n. \<not> (\<exists>p. map_of el ''property'' = Some p \<and> startsWith p ''og:'') \<and>
        map_of el ''name'' = Some n \<and> startsWith n ''twitter:'' \<longrightarrow>
      MetaExtractor_element this el =
        this\<lparr> twitter := (twitter this)(n \<mapsto> getAttribute el ''content'') \<rparr>) \<and>
   (\<not> (\<exists>p. map_of el ''property'' = Some p \<and> startsWith p ''og:'') \<and>
    map_of el ''name'' = Some ''description'' \<longrightarrow>
      MetaExtractor_element this el =
        this\<lparr> meta_description := getAttribute el ''content'' \<rparr>) \<and>
   (\<not> (\<exists>p. map_of el ''property'' = Some p \<and> startsWith p ''og:'') \<and>
    \<not> (\<exists>n. map_of el ''name'' = Some n \<and> startsWith n ''twitter:'') \<and>
    map_of el ''name'' \<noteq> Some ''description'' \<longrightarrow>
      MetaExtractor_element this el = this) \<and>
   (\<forall>p evs rest.
      map_of el ''property'' = Some p \<and> startsWith p ''og:'' \<and>
      (\<forall>ev\<in>set rest. \<forall>el'. ev = ElementStart ''meta'' el' \<longrightarrow>
         map_of el' ''property'' \<noteq> Some p) \<longrightarrow>
      get_prop (og (meta_ex (transform (evs @ ElementStart ''meta'' el # rest)))) p =
        getAttribute el ''content'') \<and>
   (\<forall>n evs rest.
      \<not> (\<exists>p. map_of el ''property'' = Some p \<and> startsWith p ''og:'') \<and>
      map_of el ''name'' = Some n \<and> startsWith n ''twitter:'' \<and>
      (\<forall>ev\<in>set rest. \<forall>el'. ev = ElementStart ''meta'' el' \<longrightarrow>
         map_of el' ''name'' \<noteq> Some n) \<longrightarrow>
      get_prop (twitter (meta_ex (transform (evs @ ElementStart ''meta'' el # rest)))) n =
        getAttribute el ''content'') \<and>
   (\<forall>evs rest.
      \<not> (\<exists>p. map_of el ''property'' = Some p \<and> startsWith p ''og:'') \<and>
      map_of el ''name'' = Some ''description'' \<and>
      (\<forall>ev\<in>set rest. \<forall>el'. ev = ElementStart ''meta'' el' \<longrightarrow>
         map_of el' ''name'' \<noteq> Some ''description'') \<longrightarrow>
      meta_description (meta_ex (transform (evs @ ElementStart ''meta'' el # rest))) =
        getAttribute el ''content'')"
proof -
  have r0: "dispatch ex (ElementStart ''meta'' el) =
      ex\<lparr> meta_ex := MetaExtractor_element (meta_ex ex) el \<rparr>"
    by (simp add: dispatch_def)
  have r1: "\<forall>p. map_of el ''property'' = Some p \<and> startsWith p ''og:'' \<longrightarrow>
      MetaExtractor_element this el =
        this\<lparr> og := (og this)(p \<mapsto> getAttribute el ''content'') \<rparr>"
    using meta_rule_og by blast
  have r2: "\<forall>n. \<not> (\<exists>p. map_of el ''property'' = Some p \<and> startsWith p ''og:'') \<and>
        map_of el ''name'' = Some n \<and> startsWith n ''twitter:'' \<longrightarrow>
      MetaExtractor_element this el =
        this\<lparr> twitter := (twitter this)(n \<mapsto> getAttribute el ''content'') \<rparr>"
    using meta_rule_twitter by blast
  have r3: "\<not> (\<exists>p. map_of el ''property'' = Some p \<and> startsWith p ''og:'') \<and>
    map_of el ''name'' = Some ''description'' \<longrightarrow>
      MetaExtractor_element this el =
        this\<lparr> meta_description := getAttribute el ''content'' \<rparr>"
    using meta_rule_description by blast
  have r4: "\<not> (\<exists>p. map_of el ''property'' = Some p \<and> startsWith p ''og:'') \<and>
    \<not> (\<exists>n. map_of el ''name'' = Some n \<and> startsWith n ''twitter:'') \<and>
    map_of el ''name'' \<noteq> Some ''description'' \<longrightarrow>
      MetaExtractor_element this el = this"
    using meta_rule_ignored by blast
  have r5: "\<forall>p evs rest.
      map_of el ''property'' = Some p \<and> startsWith p ''og:'' \<and>
      (\<forall>ev\<in>set rest. \<forall>el'. ev = ElementStart ''meta'' el' \<longrightarrow>
         map_of el' ''property'' \<noteq> Some p) \<longrightarrow>
      get_prop (og (meta_ex (transform (evs @ ElementStart ''meta'' el # rest)))) p =
        getAttribute el ''content''"
    using last_og_meta_wins by blast
  have r6: "\<forall>n evs rest.
      \<not> (\<exists>p. map_of el ''property'' = Some p \<and> startsWith p ''og:'') \<and>
      map_of el ''name'' = Some n \<and> startsWith n ''twitter:'' \<and>
      (\<forall>ev\<in>set rest. \<forall>el'. ev = ElementStart ''meta'' el' \<longrightarrow>
         map_of el' ''name'' \<noteq> Some n) \<longrightarrow>
      get_prop (twitter (meta_ex (transform (evs @ ElementStart ''meta'' el # rest)))) n =
        getAttribute el ''content''"
    using last_twitter_meta_wins by blast
  have r7: "\<forall>evs rest.
      \<not> (\<exists>p. map_of el ''property'' = Some p \<and> startsWith p ''og:'') \<and>
      map_of el ''name'' = Some ''description'' \<and>
      (\<forall>ev\<in>set rest. \<forall>el'. ev = ElementStart ''meta'' el' \<longrightarrow>
         map_of el' ''name'' \<noteq> Some ''description'') \<longrightarrow>
      meta_description (meta_ex (transform (evs @ ElementStart ''meta'' el # rest))) =
        getAttribute el ''content''"
    using last_description_meta_wins by blast
  show ?thesis
    by (intro conjI; fact)
qed

theorem meta_classification_witness:
  "get_prop
     (og (meta_ex (transform
       [ElementStart ''meta'' [(''property'', ''og:title''), (''content'', ''A'')],
        ElementStart ''meta'' [(''property'', ''og:title''), (''content'', ''B'')]])))
     ''og:title'' = Str ''B'' \<and>
   MetaExtractor_element MetaExtractor_new [(''property'', ''og:title''), (''content'', ''B'')] =
     MetaExtractor_new\<lparr> og := (og MetaExtractor_new)(''og:title'' \<mapsto> Str ''B'') \<rparr>"
proof -
  let ?a = "[(''property'', ''og:title''), (''content'', ''A'')]"
  let ?b = "[(''property'', ''og:title''), (''content'', ''B'')]"
  note rules = meta_classification [of extractors_new ?b MetaExtractor_new]
  have property: "map_of ?b ''property'' = Some ''og:title'' \<and> startsWith ''og:title'' ''og:''"
    by (simp add: startsWith_def)
  have content: "getAttribute ?b ''content'' = Str ''B''"
    by (simp add: getAttribute_def)
  have "get_prop
      (og (meta_ex (transform ([ElementStart ''meta'' ?a] @ ElementStart ''meta'' ?b # []))))
      ''og:title'' = getAttribute ?b ''content''"
    using rules property by (metis empty_iff list.set(1))
  moreover have "MetaExtractor_element MetaExtractor_new ?b =
      MetaExtractor_new\<lparr> og := (og MetaExtractor_new)(''og:title'' \<mapsto> getAttribute ?b ''content'') \<rparr>"
    using rules property by blast
  ultimately show ?thesis
    by (simp add: content)
qed

section \<open>The request handler\<close>

subsection \<open>The JSON text reads back as the properties that are not undefined\<close>

lemma hex_value_hex_digit: "hex_value (hex_digit n) = Some (n mod 16)"
proof -
  define m where "m = n mod 16"
  have "m < 16" by (simp add: m_def)
  then have "m = 0 \<or> m = 1 \<or> m = 2 \<or> m = 3 \<or> m = 4 \<or> m = 5 \<or> m = 6 \<or> m = 7 \<or>
      m = 8 \<or> m = 9 \<or> m = 10 \<or> m = 11 \<or> m = 12 \<or> m = 13 \<or> m = 14 \<or> m = 15"
    by arith
  then have "hex_value (''0123456789abcdef'' ! m) = Some m"
    by (elim disjE) (simp_all add: hex_value_def)
  then show ?thesis by (simp add: hex_digit_def m_def)
qed

lemma char_of_hex_pair:
  "char_of (16 * ((of_char c :: nat) div 16 mod 16) + (of_char c :: nat) mod 16) = c"
proof -
  have "(of_char c :: nat) < 256" by simp
  then have "(of_char c :: nat) div 16 < 16" by arith
  then have "(of_char c :: nat) div 16 mod 16 = (of_char c :: nat) div 16" by simp
  then show ?thesis by simp
qed

lemma read_unicode_escape:
  "json_read_string
     (CHR 0x5C # CHR ''u'' # CHR ''0'' # CHR ''0'' # hex_digit a # hex_digit b # cs) =
   read_char (char_of (16 * (a mod 16) + b mod 16)) (json_read_string cs)"
proof -
  have zero: "hex_value CHR ''0'' = Some 0"
    by (simp add: hex_value_def)
  show ?thesis
    by (simp add: zero hex_value_hex_digit)
qed

lemma read_escaped:
  "json_read_string (json_escape c @ cs) = read_char c (json_read_string cs)"
proof (cases "c \<in> {CHR 0x08, CHR 0x09, CHR 0x0A, CHR 0x0C, CHR 0x0D, CHR 0x22, CHR 0x5C}")
  case True
  then show ?thesis
    by (auto simp: json_escape_def json_unescape_def)
next
  case plain: False
  show ?thesis
  proof (cases "(of_char c :: nat) < 32")
    case True
    with plain have "json_escape c =
        [CHR 0x5C, CHR ''u'', CHR ''0'', CHR ''0'',
         hex_digit ((of_char c :: nat) div 16), hex_digit (of_char c :: nat)]"
      by (simp add: json_escape_def)
    then show ?thesis
      by (simp only: append_Cons append_Nil read_unicode_escape char_of_hex_pair)
  next
    case False
    with plain show ?thesis
      by (simp add: json_escape_def)
  qed
qed

lemma read_string_content:
  "json_read_string (concat (map json_escape s) @ CHR 0x22 # rest) = Some (s, rest)"
  by (induction s) (simp_all add: read_escaped read_char_def)

lemma read_quoted: "json_read_string (tl (json_quote s) @ rest) = Some (s, rest)"
  by (simp add: json_quote_def read_string_content)

lemma json_quote_Cons: "json_quote s = CHR 0x22 # tl (json_quote s)"
  by (simp add: json_quote_def)

lemma read_value:
  "v \<noteq> Undefined \<Longrightarrow> json_read_value (json_value v @ rest) = Some (v, rest)"
  by (cases v) (simp_all add: json_read_value_def json_value_def json_quote_def read_string_content)

lemma read_member:
  "snd m \<noteq> Undefined \<Longrightarrow> json_read_member (json_member m @ rest) = Some (m, rest)"
  by (simp add: json_read_member_def json_member_def json_quote_def read_string_content
      read_value)

lemma read_more:
  "\<forall>m\<in>set ms. snd m \<noteq> Undefined \<Longrightarrow> length ms \<le> n \<Longrightarrow>
   json_read_more n (concat (map (\<lambda>m. CHR '','' # json_member m) ms) @ ''}'') = Some ms"
proof (induction ms arbitrary: n)
  case Nil
  then show ?case by simp
next
  case (Cons m ms)
  then obtain k where n: "n = Suc k" and k: "length ms \<le> k"
    by (cases n) simp_all
  from Cons.prems(1) have m: "snd m \<noteq> Undefined" and ms: "\<forall>m\<in>set ms. snd m \<noteq> Undefined"
    by simp_all
  show ?case
    by (simp add: n read_member [OF m] Cons.IH [OF ms k])
qed

lemma join_commas_Cons:
  "join_commas (x # xs) = x @ concat (map (\<lambda>y. CHR '','' # y) xs)"
  by (induction xs arbitrary: x) simp_all

lemma length_members:
  "length ms \<le> length (concat (map (\<lambda>m. CHR '','' # json_member m) ms))"
  by (induction ms) simp_all

lemma json_member_not_empty: "json_member m \<noteq> []"
  by (simp add: json_member_def json_quote_def)

lemma parse_members:
  assumes "\<forall>m\<in>set ms. snd m \<noteq> Undefined"
  shows "JSON_parse_object (''{'' @ join_commas (map json_member ms) @ ''}'') = Some ms"
proof (cases ms)
  case Nil
  then show ?thesis by (simp add: JSON_parse_object_def)
next
  case (Cons m ms')
  from assms Cons have m: "snd m \<noteq> Undefined" and ms': "\<forall>m\<in>set ms'. snd m \<noteq> Undefined"
    by simp_all
  let ?commas = "concat (map (\<lambda>m. CHR '','' # json_member m) ms')"
  have shape: "''{'' @ join_commas (map json_member ms) @ ''}'' =
      CHR ''{'' # json_member m @ ?commas @ ''}''"
    by (simp add: Cons join_commas_Cons map_map comp_def)
  have "length ms' \<le> Suc (length ?commas)"
    using length_members [of ms'] by simp
  with ms' have more: "json_read_more (Suc (length ?commas)) (?commas @ ''}'') = Some ms'"
    by (rule read_more)
  show ?thesis
    unfolding shape
    by (simp add: JSON_parse_object_def read_member [OF m] more json_member_not_empty Cons)
qed

lemma JSON_roundtrip: "JSON_parse_object (JSON_stringify d) = Some (JSON_properties d)"
  unfolding JSON_stringify_def
  by (rule parse_members) (auto simp: JSON_properties_def)

subsection \<open>The responses\<close>

lemma handle_with_missing:
  "\<not> truthy (searchParams_get req ''url'') \<Longrightarrow>
   handle_with f req =
     (Inr \<lparr> status = 400, body = ''Missing URL query parameter.'',
            headers = [(''content-type'', ''text/plain;charset=UTF-8'')] \<rparr>, [])"
  by (simp add: handle_with_def new_Response_def)

lemma handle_with_result:
  "searchParams_get req ''url'' = Str u \<Longrightarrow> u \<noteq> [] \<Longrightarrow>
   f (InString u) = (Inr r, fetched) \<Longrightarrow>
   handle_with f req = (Inr (respond r), fetched)"
  by (simp add: handle_with_def truthy_def to_input_def)

lemma json_content_type:
  "new_Response b None [(''Content-Type'', ''application/json'')] =
     \<lparr> status = 200, body = b, headers = [(''content-type'', ''application/json'')] \<rparr>"
  by (simp add: new_Response_def header_name_def ascii_lower_def)

text \<open>
  C10: a request with no \<open>url\<close> parameter gets status 400 and a body of type
  \<open>text/plain\<close>, whatever the function called for a URL is, so without a call of it;
  for a request with a non-empty \<open>url\<close> parameter, the result \<open>bad-param\<close> of the call
  gets status 400 and the result \<open>failed-fetch\<close> status 422, both with a body of type
  \<open>text/plain\<close>; a success gets status 200 and a body of type \<open>application/json\<close>
  that reads back as the object of exactly those of the four fields \<open>title\<close>,
  \<open>description\<close>, \<open>image\<close> and \<open>favicon\<close> that are not \<open>undefined\<close>, in this
  order and with their values. The function that \<open>handleUnfurlRequest\<close> calls is
  \<open>unfurl\<close>.
\<close>

theorem handler_status_mapping:
  "(searchParams_get req ''url'' = Null \<longrightarrow>
      (\<forall>f. handle_with f req =
         (Inr \<lparr> status = 400, body = ''Missing URL query parameter.'',
                headers = [(''content-type'', ''text/plain;charset=UTF-8'')] \<rparr>, []))) \<and>
   (\<forall>u f fetched. searchParams_get req ''url'' = Str u \<and> u \<noteq> [] \<and>
        f (InString u) = (Inr (BadResult BadParam), fetched) \<longrightarrow>
      handle_with f req =
        (Inr \<lparr> status = 400, body = ''Bad URL query parameter.'',
               headers = [(''content-type'', ''text/plain;charset=UTF-8'')] \<rparr>, fetched)) \<and>
   (\<forall>u f fetched. searchParams_get req ''url'' = Str u \<and> u \<noteq> [] \<and>
        f (InString u) = (Inr (BadResult FailedFetch), fetched) \<longrightarrow>
      handle_with f req =
        (Inr \<lparr> status = 422, body = ''Failed to fetch URL.'',
               headers = [(''content-type'', ''text/plain;charset=UTF-8'')] \<rparr>, fetched)) \<and>
   (\<forall>u f fetched d. searchParams_get req ''url'' = Str u \<and> u \<noteq> [] \<and>
        f (InString u) = (Inr (GoodResult d), fetched) \<longrightarrow>
      handle_with f req =
        (Inr \<lparr> status = 200, body = JSON_stringify d,
               headers = [(''content-type'', ''application/json'')] \<rparr>, fetched) \<and>
      JSON_parse_object (JSON_stringify d) =
        Some (filter (\<lambda>(k, v). v \<noteq> Undefined)
          [(''title'', title d), (''description'', description d),
           (''image'', image_url d), (''favicon'', favicon d)])) \<and>
   handleUnfurlRequest e req = handle_with (unfurl e) req"
proof -
  have missing: "searchParams_get req ''url'' = Null \<longrightarrow>
      (\<forall>f. handle_with f req =
         (Inr \<lparr> status = 400, body = ''Missing URL query parameter.'',
                headers = [(''content-type'', ''text/plain;charset=UTF-8'')] \<rparr>, []))"
    by (simp add: handle_with_missing truthy_def)
  have bad_param: "\<forall>u f fetched. searchParams_get req ''url'' = Str u \<and> u \<noteq> [] \<and>
        f (InString u) = (Inr (BadResult BadParam), fetched) \<longrightarrow>
      handle_with f req =
        (Inr \<lparr> status = 400, body = ''Bad URL query parameter.'',
               headers = [(''content-type'', ''text/plain;charset=UTF-8'')] \<rparr>, fetched)"
    by (simp add: handle_with_result respond_def new_Response_def)
  have failed_fetch: "\<forall>u f fetched. searchParams_get req ''url'' = Str u \<and> u \<noteq> [] \<and>
        f (InString u) = (Inr (BadResult FailedFetch), fetched) \<longrightarrow>
      handle_with f req =
        (Inr \<lparr> status = 422, body = ''Failed to fetch URL.'',
               headers = [(''content-type'', ''text/plain;charset=UTF-8'')] \<rparr>, fetched)"
    by (simp add: handle_with_result respond_def new_Response_def)
  have success: "\<forall>u f fetched d. searchParams_get req ''url'' = Str u \<and> u \<noteq> [] \<and>
        f (InString u) = (Inr (GoodResult d), fetched) \<longrightarrow>
      handle_with f req =
        (Inr \<lparr> status = 200, body = JSON_stringify d,
               headers = [(''content-type'', ''application/json'')] \<rparr>, fetched) \<and>
      JSON_parse_object (JSON_stringify d) =
        Some (filter (\<lambda>(k, v). v \<noteq> Undefined)
          [(''title'', title d), (''description'', description d),
           (''image'', image_url d), (''favicon'', favicon d)])"
    using JSON_roundtrip
    by (simp add: handle_with_result respond_def json_content_type JSON_properties_def)
  have real: "handleUnfurlRequest e req = handle_with (unfurl e) req"
    by (simp add: handleUnfurlRequest_def)
  show ?thesis
    by (intro conjI; fact)
qed

lemma quoted_page_extracted:
  "fetch_and_extract example_env ''https://example.com/quoted'' =
     (Inr (GoodResult
        \<lparr> title = Str [CHR ''a'', CHR 0x22, CHR 0x5C, CHR 0x0A, CHR ''/'', CHR ''b''],
          description = Str [CHR 0x08, CHR 0x0C, CHR 0x0D, CHR 0x09, CHR 0x1F, CHR 0x7F],
          image_url = Str ''https://cdn.example.com/icon.png'',
          favicon = Undefined \<rparr>),
      [''https://example.com/quoted''])"
  by (simp add: fetch_and_extract_def example_env_fetch resolution_def quoted_page_def
      extractor_defs value_defs candidate_defs absolutize_def)

lemma quoted_page_stringified:
  "JSON_stringify
     \<lparr> title = Str [CHR ''a'', CHR 0x22, CHR 0x5C, CHR 0x0A, CHR ''/'', CHR ''b''],
       description = Str [CHR 0x08, CHR 0x0C, CHR 0x0D, CHR 0x09, CHR 0x1F, CHR 0x7F],
       image_url = Str ''https://cdn.example.com/icon.png'',
       favicon = Undefined \<rparr> = quoted_page_json"
  by (simp add: JSON_stringify_def JSON_properties_def json_member_def json_value_def
      json_quote_def json_escape_def hex_digit_def quoted_page_json_def)

theorem handler_status_mapping_witness:
  "handleUnfurlRequest example_env \<lparr> searchParams = [(''ref'', ''x'')] \<rparr> =
     (Inr \<lparr> status = 400, body = ''Missing URL query parameter.'',
            headers = [(''content-type'', ''text/plain;charset=UTF-8'')] \<rparr>, []) \<and>
   handleUnfurlRequest example_env \<lparr> searchParams = [(''url'', ''https://example.com/page'')] \<rparr> =
     (Inr \<lparr> status = 400, body = ''Bad URL query parameter.'',
            headers = [(''content-type'', ''text/plain;charset=UTF-8'')] \<rparr>, []) \<and>
   handle_with (\<lambda>u. fetch_and_extract example_env ''https://unreachable.example/'')
     \<lparr> searchParams = [(''url'', ''https://unreachable.example/'')] \<rparr> =
     (Inr \<lparr> status = 422, body = ''Failed to fetch URL.'',
            headers = [(''content-type'', ''text/plain;charset=UTF-8'')] \<rparr>,
      [''https://unreachable.example/'']) \<and>
   handle_with (\<lambda>u. fetch_and_extract example_env ''https://example.com/quoted'')
     \<lparr> searchParams = [(''url'', ''https://example.com/quoted'')] \<rparr> =
     (Inr \<lparr> status = 200, body = quoted_page_json,
            headers = [(''content-type'', ''application/json'')] \<rparr>,
      [''https://example.com/quoted'']) \<and>
   JSON_parse_object quoted_page_json =
     Some [(''title'', Str [CHR ''a'', CHR 0x22, CHR 0x5C, CHR 0x0A, CHR ''/'', CHR ''b'']),
           (''description'', Str [CHR 0x08, CHR 0x0C, CHR 0x0D, CHR 0x09, CHR 0x1F, CHR 0x7F]),
           (''image'', Str ''https://cdn.example.com/icon.png'')]"
proof -
  let ?none = "\<lparr> searchParams = [(''ref'', ''x'')] \<rparr>"
  let ?page = "\<lparr> searchParams = [(''url'', ''https://example.com/page'')] \<rparr>"
  let ?gone = "\<lparr> searchParams = [(''url'', ''https://unreachable.example/'')] \<rparr>"
  let ?quoted = "\<lparr> searchParams = [(''url'', ''https://example.com/quoted'')] \<rparr>"
  let ?data = "\<lparr> title = Str [CHR ''a'', CHR 0x22, CHR 0x5C, CHR 0x0A, CHR ''/'', CHR ''b''],
    description = Str [CHR 0x08, CHR 0x0C, CHR 0x0D, CHR 0x09, CHR 0x1F, CHR 0x7F],
    image_url = Str ''https://cdn.example.com/icon.png'',
    favicon = Undefined \<rparr>"
  have "searchParams_get ?none ''url'' = Null"
    by (simp add: searchParams_get_def)
  with handler_status_mapping [of ?none example_env]
  have missing: "handleUnfurlRequest example_env ?none =
      (Inr \<lparr> status = 400, body = ''Missing URL query parameter.'',
             headers = [(''content-type'', ''text/plain;charset=UTF-8'')] \<rparr>, [])"
    by simp
  have "searchParams_get ?page ''url'' = Str ''https://example.com/page''"
    and "unfurl example_env (InString ''https://example.com/page'') =
      (Inr (BadResult BadParam), [])"
    by (simp_all add: searchParams_get_def unfurl_def bad_param_condition_always)
  with handler_status_mapping [of ?page example_env]
  have bad_param: "handleUnfurlRequest example_env ?page =
      (Inr \<lparr> status = 400, body = ''Bad URL query parameter.'',
             headers = [(''content-type'', ''text/plain;charset=UTF-8'')] \<rparr>, [])"
    by simp
  have "searchParams_get ?gone ''url'' = Str ''https://unreachable.example/''"
    and "fetch_and_extract example_env ''https://unreachable.example/'' =
      (Inr (BadResult FailedFetch), [''https://unreachable.example/''])"
    by (simp_all add: searchParams_get_def fetch_and_extract_def example_env_fetch)
  with handler_status_mapping [of ?gone example_env]
  have failed_fetch:
    "handle_with (\<lambda>u. fetch_and_extract example_env ''https://unreachable.example/'') ?gone =
      (Inr \<lparr> status = 422, body = ''Failed to fetch URL.'',
             headers = [(''content-type'', ''text/plain;charset=UTF-8'')] \<rparr>,
       [''https://unreachable.example/''])"
    by simp
  have "searchParams_get ?quoted ''url'' = Str ''https://example.com/quoted''"
    by (simp add: searchParams_get_def)
  with handler_status_mapping [of ?quoted example_env] quoted_page_extracted
  have "handle_with (\<lambda>u. fetch_and_extract example_env ''https://example.com/quoted'') ?quoted =
      (Inr \<lparr> status = 200, body = JSON_stringify ?data,
             headers = [(''content-type'', ''application/json'')] \<rparr>,
       [''https://example.com/quoted'']) \<and>
    JSON_parse_object (JSON_stringify ?data) =
      Some (filter (\<lambda>(k, v). v \<noteq> Undefined)
        [(''title'', title ?data), (''description'', description ?data),
         (''image'', image_url ?data), (''favicon'', favicon ?data)])"
    by simp
  then have success:
    "handle_with (\<lambda>u. fetch_and_extract example_env ''https://example.com/quoted'') ?quoted =
      (Inr \<lparr> status = 200, body = quoted_page_json,
             headers = [(''content-type'', ''application/json'')] \<rparr>,
       [''https://example.com/quoted''])"
    and read_back: "JSON_parse_object quoted_page_json =
      Some [(''title'', Str [CHR ''a'', CHR 0x22, CHR 0x5C, CHR 0x0A, CHR ''/'', CHR ''b'']),
            (''description'', Str [CHR 0x08, CHR 0x0C, CHR 0x0D, CHR 0x09, CHR 0x1F, CHR 0x7F]),
            (''image'', Str ''https://cdn.example.com/icon.png'')]"
    by (simp_all add: quoted_page_stringified)
  from missing bad_param failed_fetch success read_back show ?thesis
    by (intro conjI)
qed

end
